theory Spec2Isabelle
  imports Main "HOL-Library.Word"
begin

section \<open>Pushing a configuration to a Cloud IoT Core device\<close>

text \<open>
  The repository holds two Go programs with the same linear body: \<^verbatim>\<open>main\<close> in
  \<^verbatim>\<open>main.go\<close> and the HTTP handler \<^verbatim>\<open>UpdateWeather\<close> of the Cloud Function, listed in
  \<^verbatim>\<open>README.md\<close>. Each builds an API client, marshals a \<^verbatim>\<open>FanConfig\<close> to JSON, base64-encodes
  the bytes, formats the device path with \<^verbatim>\<open>fmt.Sprintf\<close>, issues one remote call and
  reports an error if there is one.

  The Go library functions they call are modelled as far as the two programs use them;
  the remote service is a parameter.
\<close>

subsection \<open>Errors\<close>

text \<open>
  A Go \<^verbatim>\<open>error\<close> is known to the programs only through its text: they print it with
  the verb \<^verbatim>\<open>%v\<close>, which calls the method \<^verbatim>\<open>Error()\<close>.
\<close>

datatype error = Err string

primrec Error :: "error \<Rightarrow> string" where
  "Error (Err msg) = msg"

subsection \<open>\<^verbatim>\<open>fmt.Sprintf\<close> on string operands\<close>

text \<open>
  The fragment of \<^verbatim>\<open>fmt.Sprintf\<close> that the programs use: the operands are strings (an
  error operand is passed as its \<^verbatim>\<open>Error()\<close> text), the verbs \<^verbatim>\<open>%s\<close> and \<^verbatim>\<open>%v\<close> print the
  operand as it is, \<^verbatim>\<open>%%\<close> prints a percent sign. A verb with no operand left prints
  \<^verbatim>\<open>%!s(MISSING)\<close>, a percent sign at the end of the format prints \<^verbatim>\<open>%!(NOVERB)\<close>, unused
  operands are listed as \<^verbatim>\<open>%!(EXTRA string=...)\<close>, and any other verb character is
  reported as a bad verb, \<^verbatim>\<open>%!d(string=...)\<close>. Flags, width, precision, argument indexes
  and the string verbs \<^verbatim>\<open>%q\<close>, \<^verbatim>\<open>%x\<close>, \<^verbatim>\<open>%X\<close> occur in neither program and are outside this
  fragment.
\<close>

fun extra_operands :: "string list \<Rightarrow> string" where
  "extra_operands [] = []"
| "extra_operands [a] = ''string='' @ a"
| "extra_operands (a # b # args) = ''string='' @ a @ '', '' @ extra_operands (b # args)"

fun Sprintf :: "string \<Rightarrow> string list \<Rightarrow> string" where
  "Sprintf [] [] = []"
| "Sprintf [] (a # args) = ''%!(EXTRA '' @ extra_operands (a # args) @ '')''"
| "Sprintf (c # format) args =
     (if c \<noteq> CHR ''%'' then c # Sprintf format args
      else (case format of
              [] \<Rightarrow> ''%!(NOVERB)'' @ Sprintf [] args
            | verb # format' \<Rightarrow>
                if verb = CHR ''%'' then CHR ''%'' # Sprintf format' args
                else (case args of
                        [] \<Rightarrow> ''%!'' @ [verb] @ ''(MISSING)'' @ Sprintf format' []
                      | a # args' \<Rightarrow>
                          (if verb = CHR ''s'' \<or> verb = CHR ''v'' then a
                           else ''%!'' @ [verb] @ ''(string='' @ a @ '')'')
                          @ Sprintf format' args')))"

subsection \<open>\<^verbatim>\<open>encoding/json\<close>: \<^verbatim>\<open>json.Marshal\<close>\<close>

text \<open>
  \<^verbatim>\<open>json.Marshal\<close> takes any Go value (\<^verbatim>\<open>interface{}\<close>) and inspects it by reflection. The
  values modelled here are booleans, integers (\<^verbatim>\<open>int\<close>, 64 bits on the platforms of the
  Cloud Functions runtime), structs of such values with the key of each exported field
  (its \<^verbatim>\<open>json:"..."\<close> tag), and values of a type that \<^verbatim>\<open>encoding/json\<close> does not support
  (a channel, a function, a complex number), given by the name of the type. Keys are
  written between double quotes as they are, which is what Go does for a key of letters
  and digits.
\<close>

datatype go_value =
    VBool bool
  | VInt "64 word"
  | VStruct go_fields
  | VUnsupported string
and go_fields =
    NoFields
  | Field string go_value go_fields

text \<open>
  \<^verbatim>\<open>strconv.AppendInt(b, v, 10)\<close>: the decimal digits of the magnitude, most significant
  first, after a minus sign for a negative number.
\<close>

definition digits :: string where
  "digits = ''0123456789''"

fun FormatUint :: "nat \<Rightarrow> string" where
  "FormatUint n = (if n < 10 then [digits ! n] else FormatUint (n div 10) @ [digits ! (n mod 10)])"

declare FormatUint.simps [simp del]

definition FormatInt :: "int \<Rightarrow> string" where
  "FormatInt i = (if i < 0 then CHR ''-'' # FormatUint (nat (- i)) else FormatUint (nat i))"

text \<open>
  The encoder: \<^verbatim>\<open>true\<close> or \<^verbatim>\<open>false\<close> for a boolean, the decimal number for an integer,
  \<^verbatim>\<open>{"key":value,...}\<close> in the order of declaration for a struct, and the error
  \<^verbatim>\<open>UnsupportedTypeError\<close> for an unsupported type, also when it is the type of a field.
\<close>

primrec Marshal :: "go_value \<Rightarrow> error + string"
  and Marshal_fields :: "go_fields \<Rightarrow> error + string"
where
  "Marshal (VBool b) = Inr (if b then ''true'' else ''false'')"
| "Marshal (VInt i) = Inr (FormatInt (sint i))"
| "Marshal (VStruct fs) =
     (case Marshal_fields fs of
        Inl err \<Rightarrow> Inl err
      | Inr members \<Rightarrow> Inr (''{'' @ members @ ''}''))"
| "Marshal (VUnsupported t) = Inl (Err (''json: unsupported type: '' @ t))"
| "Marshal_fields NoFields = Inr []"
| "Marshal_fields (Field key v fs) =
     (case Marshal v of
        Inl err \<Rightarrow> Inl err
      | Inr bytes \<Rightarrow>
          (case Marshal_fields fs of
             Inl err \<Rightarrow> Inl err
           | Inr members \<Rightarrow>
               Inr ([CHR 0x22] @ key @ [CHR 0x22] @ '':'' @ bytes @
                    (if fs = NoFields then [] else '','') @ members)))"

subsection \<open>\<^verbatim>\<open>FanConfig\<close>\<close>

text \<open>
  \<^verbatim>\<open>type FanConfig struct { On bool `json:"on"`; Speed int `json:"speed"` }\<close>, and the
  value \<^verbatim>\<open>json.Marshal\<close> sees when it is given one.
\<close>

record FanConfig =
  On :: bool
  Speed :: "64 word"

definition FanConfig_value :: "FanConfig \<Rightarrow> go_value" where
  "FanConfig_value cfg =
     VStruct (Field ''on'' (VBool (On cfg)) (Field ''speed'' (VInt (Speed cfg)) NoFields))"

subsection \<open>\<^verbatim>\<open>encoding/base64\<close>: \<^verbatim>\<open>StdEncoding.EncodeToString\<close>\<close>

text \<open>
  The standard alphabet with padding. Three bytes make a 24-bit group
  \<^verbatim>\<open>val = src[0]<<16 | src[1]<<8 | src[2]\<close>, written as four characters
  \<^verbatim>\<open>encode[val>>18&0x3F]\<close>, \<^verbatim>\<open>encode[val>>12&0x3F]\<close>, \<^verbatim>\<open>encode[val>>6&0x3F]\<close>,
  \<^verbatim>\<open>encode[val&0x3F]\<close>; one or two bytes that remain are written as two or three
  characters and padded with \<^verbatim>\<open>=\<close>. The bytes occupy disjoint bits of \<^verbatim>\<open>val\<close>, so the
  bitwise or is a sum; a shift to the right by \<open>k\<close> is \<open>div 2 ^ k\<close> and the mask
  \<^verbatim>\<open>0x3F\<close> is \<open>mod 64\<close>.
\<close>

definition encodeStd :: string where
  "encodeStd = ''ABCDEFGHIJKLMNOPQRSTUVWXYZabcdefghijklmnopqrstuvwxyz0123456789+/''"

fun EncodeToString :: "string \<Rightarrow> string" where
  "EncodeToString [] = []"
| "EncodeToString [a] =
     (let val = of_char a * 65536 :: nat
      in [encodeStd ! (val div 262144 mod 64), encodeStd ! (val div 4096 mod 64),
          CHR ''='', CHR ''=''])"
| "EncodeToString [a, b] =
     (let val = of_char a * 65536 + of_char b * 256 :: nat
      in [encodeStd ! (val div 262144 mod 64), encodeStd ! (val div 4096 mod 64),
          encodeStd ! (val div 64 mod 64), CHR ''=''])"
| "EncodeToString (a # b # c # src) =
     (let val = of_char a * 65536 + of_char b * 256 + of_char c :: nat
      in [encodeStd ! (val div 262144 mod 64), encodeStd ! (val div 4096 mod 64),
          encodeStd ! (val div 64 mod 64), encodeStd ! (val mod 64)]
         @ EncodeToString src)"

subsection \<open>The remote service\<close>

text \<open>
  The package \<^verbatim>\<open>cloudiot\<close> is the programs' only way out. \<^verbatim>\<open>NewService\<close> gives a client
  or an error (no credentials, for one); \<^verbatim>\<open>call.Do()\<close> sends the request
  \<^verbatim>\<open>ModifyCloudToDeviceConfig(devicePath, &configRequest)\<close> and gives \<^verbatim>\<open>nil\<close> or an error.
  Both answers are parameters of the model. \<^verbatim>\<open>call.Context(ctx)\<close> only attaches the
  background context to the call and is left out.
\<close>

datatype service = Service

record ModifyCloudToDeviceConfigRequest =
  BinaryData :: string

record cloudiot =
  NewService :: "error + service"
  Do :: "string \<Rightarrow> ModifyCloudToDeviceConfigRequest \<Rightarrow> error option"

subsection \<open>The device path\<close>

text \<open>Line 45 of \<^verbatim>\<open>main.go\<close>, the same line in \<^verbatim>\<open>UpdateWeather\<close>.\<close>

definition devicePath :: "string \<Rightarrow> string \<Rightarrow> string \<Rightarrow> string \<Rightarrow> string" where
  "devicePath projectID location registryID deviceID =
     Sprintf ''projects/%s/locations/%s/registries/%s/devices/%s''
       [projectID, location, registryID, deviceID]"

subsection \<open>\<^verbatim>\<open>main\<close>\<close>

text \<open>
  What a run of \<^verbatim>\<open>main\<close> does that can be seen from outside: the text it prints and the
  remote calls it issues, each with its two arguments.
\<close>

record outcome =
  stdout :: string
  calls :: "(string \<times> ModifyCloudToDeviceConfigRequest) list"

text \<open>
  The body of \<^verbatim>\<open>main\<close>, with the values that the source writes as literals (the
  configuration \<^verbatim>\<open>sunnyConfigData\<close> and the four identifiers the reader of the tutorial
  fills in) as arguments. \<^verbatim>\<open>fmt.Printf("%v\n", err)\<close> prints the text of the error and a
  newline.
\<close>

definition main_with ::
  "go_value \<Rightarrow> string \<Rightarrow> string \<Rightarrow> string \<Rightarrow> string \<Rightarrow> cloudiot \<Rightarrow> outcome" where
  "main_with sunnyConfigData projectID location registryID deviceID api =
     (case NewService api of
        Inl err \<Rightarrow> \<lparr>stdout = Sprintf ''%v\<newline>'' [Error err], calls = []\<rparr>
      | Inr service \<Rightarrow>
          (case Marshal sunnyConfigData of
             Inl err \<Rightarrow> \<lparr>stdout = Sprintf ''%v\<newline>'' [Error err], calls = []\<rparr>
           | Inr bytes \<Rightarrow>
               (let encodedString = EncodeToString bytes;
                    configRequest = \<lparr>BinaryData = encodedString\<rparr>;
                    path = devicePath projectID location registryID deviceID
                in (case Do api path configRequest of
                      Some err \<Rightarrow>
                        \<lparr>stdout = Sprintf ''%v\<newline>'' [Error err],
                         calls = [(path, configRequest)]\<rparr>
                    | None \<Rightarrow> \<lparr>stdout = [], calls = [(path, configRequest)]\<rparr>))))"

text \<open>\<^verbatim>\<open>main\<close> as the source has it.\<close>

definition main :: "cloudiot \<Rightarrow> outcome" where
  "main = main_with (FanConfig_value \<lparr>On = True, Speed = 40\<rparr>)
            ''YOUR-GCP-PROJECT-ID'' ''REGISTRY-LOCATION'' ''REGISTRY-ID'' ''DEVICE-ID''"

subsection \<open>\<^verbatim>\<open>UpdateWeather\<close>\<close>

text \<open>
  The handler has an \<^verbatim>\<open>http.ResponseWriter\<close> and the \<^verbatim>\<open>*http.Request\<close>. What it does to
  the writer is the list of its calls of \<^verbatim>\<open>WriteHeader\<close> and \<^verbatim>\<open>Write\<close>, in order.
\<close>

datatype http_write = WriteHeader nat | Write string

record request =
  Method :: string
  URL :: string
  Body :: string

record http_outcome = outcome +
  response :: "http_write list"

definition StatusOK :: nat where
  "StatusOK = 200"

definition StatusInternalServerError :: nat where
  "StatusInternalServerError = 500"

definition UpdateWeather_with ::
  "go_value \<Rightarrow> string \<Rightarrow> string \<Rightarrow> string \<Rightarrow> string \<Rightarrow> cloudiot \<Rightarrow> request \<Rightarrow> http_outcome"
where
  "UpdateWeather_with sunnyConfigData projectID location registryID deviceID api r =
     (case NewService api of
        Inl err \<Rightarrow>
          \<lparr>stdout = Sprintf ''%v\<newline>'' [Error err], calls = [], response = []\<rparr>
      | Inr service \<Rightarrow>
          (case Marshal sunnyConfigData of
             Inl err \<Rightarrow>
               \<lparr>stdout = Sprintf ''%v\<newline>'' [Error err], calls = [], response = []\<rparr>
           | Inr bytes \<Rightarrow>
               (let encodedString = EncodeToString bytes;
                    configRequest = \<lparr>BinaryData = encodedString\<rparr>;
                    path = devicePath projectID location registryID deviceID
                in (case Do api path configRequest of
                      Some err \<Rightarrow>
                        \<lparr>stdout = Sprintf ''%v\<newline>'' [Error err],
                         calls = [(path, configRequest)],
                         response = [WriteHeader StatusInternalServerError,
                                     Write ''500 - Something bad happened!'']\<rparr>
                    | None \<Rightarrow>
                        \<lparr>stdout = [],
                         calls = [(path, configRequest)],
                         response = [WriteHeader StatusOK, Write ''Success!'']\<rparr>))))"

definition UpdateWeather :: "cloudiot \<Rightarrow> request \<Rightarrow> http_outcome" where
  "UpdateWeather = UpdateWeather_with (FanConfig_value \<lparr>On = True, Speed = 20\<rparr>)
                     ''YOUR-GCP-PROJECT-ID'' ''REGISTRY-LOCATION'' ''REGISTRY-ID'' ''DEVICE-ID''"

section \<open>Notions of the specification\<close>

subsection \<open>Well-formed device paths\<close>

text \<open>
  Modelled from the spec: the parts of a path between its slashes (Go's
  \<^verbatim>\<open>strings.Split(path, "/")\<close>). The source never takes a path apart.
\<close>

fun segments :: "string \<Rightarrow> string list" where
  "segments [] = [[]]"
| "segments (c # s) =
     (if c = CHR ''/'' then [] # segments s
      else (case segments s of [] \<Rightarrow> [[c]] | seg # segs \<Rightarrow> (c # seg) # segs))"

text \<open>
  Modelled from the spec: a device path is well formed when it has the eight parts
  \<^verbatim>\<open>projects\<close>, a project, \<^verbatim>\<open>locations\<close>, a location, \<^verbatim>\<open>registries\<close>, a registry, \<^verbatim>\<open>devices\<close>,
  a device, none of the four names empty; any other string is what the specification
  calls a malformed path. The source has no such check.
\<close>

definition device_path_ok :: "string \<Rightarrow> bool" where
  "device_path_ok path =
     (let segs = segments path
      in length segs = 8 \<and> segs ! 0 = ''projects'' \<and> segs ! 2 = ''locations'' \<and>
         segs ! 4 = ''registries'' \<and> segs ! 6 = ''devices'' \<and>
         segs ! 1 \<noteq> [] \<and> segs ! 3 \<noteq> [] \<and> segs ! 5 \<noteq> [] \<and> segs ! 7 \<noteq> [])"

subsection \<open>Decoding the payload\<close>

text \<open>
  The repository only encodes. The decoder of the round trip that the specification
  states is the one it names: base64-decode, then read the canonical JSON bytes.
\<close>

text \<open>
  Modelled from the spec: the decoding table of the standard alphabet, which gives each
  character of \<^const>\<open>encodeStd\<close> its index and nothing to any other character.
\<close>

definition decodeMap :: "char \<Rightarrow> nat option" where
  "decodeMap = map_of (zip encodeStd [0..<64])"

text \<open>
  Modelled from the spec: base64 decoding with the standard alphabet and padding (the
  inverse that the specification's round trip names; the source has no decoder). Four
  characters give a 24-bit group and three bytes; a last group that ends in \<^verbatim>\<open>==\<close> or
  \<^verbatim>\<open>=\<close> gives one or two bytes; everything else is rejected.
\<close>

fun DecodeString :: "string \<Rightarrow> string option" where
  "DecodeString [] = Some []"
| "DecodeString (c0 # c1 # c2 # c3 # s) =
     (case (decodeMap c0, decodeMap c1) of
        (Some d0, Some d1) \<Rightarrow>
          if s = [] \<and> c2 = CHR ''='' \<and> c3 = CHR ''='' then
            (let val = d0 * 262144 + d1 * 4096
             in Some [char_of (val div 65536 mod 256)])
          else
            (case decodeMap c2 of
               None \<Rightarrow> None
             | Some d2 \<Rightarrow>
                 if s = [] \<and> c3 = CHR ''='' then
                   (let val = d0 * 262144 + d1 * 4096 + d2 * 64
                    in Some [char_of (val div 65536 mod 256), char_of (val div 256 mod 256)])
                 else
                   (case decodeMap c3 of
                      None \<Rightarrow> None
                    | Some d3 \<Rightarrow>
                        (case DecodeString s of
                           None \<Rightarrow> None
                         | Some bytes \<Rightarrow>
                             (let val = d0 * 262144 + d1 * 4096 + d2 * 64 + d3
                              in Some (char_of (val div 65536 mod 256) #
                                       char_of (val div 256 mod 256) #
                                       char_of (val mod 256) # bytes)))))
      | _ \<Rightarrow> None)"
| "DecodeString _ = None"

text \<open>Modelled from the spec: a string without the given prefix, when it starts with it.\<close>

fun CutPrefix :: "string \<Rightarrow> string \<Rightarrow> string option" where
  "CutPrefix [] s = Some s"
| "CutPrefix (p # prefix) [] = None"
| "CutPrefix (p # prefix) (c # s) = (if p = c then CutPrefix prefix s else None)"

text \<open>Modelled from the spec: reading the JSON literal \<^verbatim>\<open>true\<close> or \<^verbatim>\<open>false\<close>.\<close>

definition ParseBool :: "string \<Rightarrow> (bool \<times> string) option" where
  "ParseBool s =
     (case CutPrefix ''true'' s of
        Some rest \<Rightarrow> Some (True, rest)
      | None \<Rightarrow>
          (case CutPrefix ''false'' s of
             Some rest \<Rightarrow> Some (False, rest)
           | None \<Rightarrow> None))"

text \<open>Modelled from the spec: the decimal digits and their values.\<close>

definition is_digit :: "char \<Rightarrow> bool" where
  "is_digit c = (c \<in> set digits)"

definition digit_value :: "char \<Rightarrow> nat" where
  "digit_value c = of_char c - 48"

text \<open>Modelled from the spec: the number that a string of decimal digits denotes.\<close>

definition ParseUint :: "string \<Rightarrow> nat" where
  "ParseUint ds = foldl (\<lambda>n c. n * 10 + digit_value c) 0 ds"

text \<open>
  Modelled from the spec: reading a JSON integer, an optional minus sign and at least
  one digit; the rest of the input is returned with the number.
\<close>

definition ParseInt :: "string \<Rightarrow> (int \<times> string) option" where
  "ParseInt s =
     (let neg = (case s of [] \<Rightarrow> False | c # t \<Rightarrow> c = CHR ''-'');
          t = (if neg then tl s else s);
          ds = takeWhile is_digit t
      in if ds = [] then None
         else Some (if neg then - int (ParseUint ds) else int (ParseUint ds),
                    dropWhile is_digit t))"

text \<open>
  Modelled from the spec: deserializing the canonical JSON bytes of a \<^verbatim>\<open>FanConfig\<close>, the
  object with the key \<^verbatim>\<open>on\<close> and then the key \<^verbatim>\<open>speed\<close>, whose number must fit Go's
  64-bit \<^verbatim>\<open>int\<close>. The source has no deserializer.
\<close>

definition Unmarshal_FanConfig :: "string \<Rightarrow> FanConfig option" where
  \<open>Unmarshal_FanConfig s =
     (case CutPrefix ''{"on":'' s of
        None \<Rightarrow> None
      | Some s1 \<Rightarrow>
          (case ParseBool s1 of
             None \<Rightarrow> None
           | Some (b, s2) \<Rightarrow>
               (case CutPrefix '',"speed":'' s2 of
                  None \<Rightarrow> None
                | Some s3 \<Rightarrow>
                    (case ParseInt s3 of
                       None \<Rightarrow> None
                     | Some (i, s4) \<Rightarrow>
                         if s4 = ''}'' \<and> - 9223372036854775808 \<le> i \<and> i \<le> 9223372036854775807
                         then Some \<lparr>On = b, Speed = word_of_int i\<rparr>
                         else None))))\<close>

text \<open>
  Modelled from the spec: decoding the transport encoding, base64-decode and then
  deserialize.
\<close>

definition decode_payload :: "string \<Rightarrow> FanConfig option" where
  "decode_payload encodedString =
     (case DecodeString encodedString of
        None \<Rightarrow> None
      | Some bytes \<Rightarrow> Unmarshal_FanConfig bytes)"

section \<open>Facts about the library functions\<close>

lemma Sprintf_v_newline: "Sprintf ''%v\<newline>'' [s] = s @ ''\<newline>''"
  by simp

lemma Sprintf_path:
  "Sprintf ''projects/%s/locations/%s/registries/%s/devices/%s'' [p, l, r, d] =
     ''projects/'' @ p @ ''/locations/'' @ l @ ''/registries/'' @ r @ ''/devices/'' @ d"
  by simp

lemma Marshal_FanConfig:
  \<open>Marshal (FanConfig_value cfg) =
     Inr (''{"on":'' @ (if On cfg then ''true'' else ''false'') @
          '',"speed":'' @ FormatInt (sint (Speed cfg)) @ ''}'')\<close>
  by (simp add: FanConfig_value_def)

lemma FormatInt_40: "FormatInt 40 = ''40''"
  by (simp add: FormatInt_def FormatUint.simps digits_def)

lemma FormatInt_20: "FormatInt 20 = ''20''"
  by (simp add: FormatInt_def FormatUint.simps digits_def)

lemma Marshal_40:
  \<open>Marshal (FanConfig_value \<lparr>On = True, Speed = 40\<rparr>) = Inr ''{"on":true,"speed":40}''\<close>
  by (simp add: Marshal_FanConfig FormatInt_40)

lemma Marshal_20:
  \<open>Marshal (FanConfig_value \<lparr>On = True, Speed = 20\<rparr>) = Inr ''{"on":true,"speed":20}''\<close>
  by (simp add: Marshal_FanConfig FormatInt_20)

lemma EncodeToString_40:
  \<open>EncodeToString ''{"on":true,"speed":40}'' = ''eyJvbiI6dHJ1ZSwic3BlZWQiOjQwfQ==''\<close>
  by (simp add: encodeStd_def)

lemma EncodeToString_20:
  \<open>EncodeToString ''{"on":true,"speed":20}'' = ''eyJvbiI6dHJ1ZSwic3BlZWQiOjIwfQ==''\<close>
  by (simp add: encodeStd_def)

section \<open>The device path\<close>

text \<open>
  C2. For every device address, and so for every address whose four fields are non-empty
  and path-safe, the path is exactly
  \<^verbatim>\<open>projects/{projectID}/locations/{location}/registries/{registryID}/devices/{deviceID}\<close>.
\<close>

theorem devicePath_format:
  "devicePath projectID location registryID deviceID =
     ''projects/'' @ projectID @ ''/locations/'' @ location @
     ''/registries/'' @ registryID @ ''/devices/'' @ deviceID"
  unfolding devicePath_def by (rule Sprintf_path)

section \<open>A run that succeeds\<close>

text \<open>
  C1. With the payload \<^verbatim>\<open>{on: true, speed: 40}\<close> and the address fields \<^verbatim>\<open>proj1\<close>,
  \<^verbatim>\<open>us-central1\<close>, \<^verbatim>\<open>reg1\<close>, \<^verbatim>\<open>dev1\<close>, when the client is built and the registry accepts
  the call, the program issues exactly one call, to the path
  \<^verbatim>\<open>projects/proj1/locations/us-central1/registries/reg1/devices/dev1\<close>, with the standard
  base64 encoding of the bytes \<^verbatim>\<open>{"on":true,"speed":40}\<close>, and reports no error.
\<close>

theorem scenario_proj1:
  assumes \<open>NewService api = Inr service\<close>
    and \<open>Do api ''projects/proj1/locations/us-central1/registries/reg1/devices/dev1''
            \<lparr>BinaryData = EncodeToString ''{"on":true,"speed":40}''\<rparr> = None\<close>
  shows \<open>main_with (FanConfig_value \<lparr>On = True, Speed = 40\<rparr>)
            ''proj1'' ''us-central1'' ''reg1'' ''dev1'' api =
          \<lparr>stdout = [],
           calls = [(''projects/proj1/locations/us-central1/registries/reg1/devices/dev1'',
                     \<lparr>BinaryData = EncodeToString ''{"on":true,"speed":40}''\<rparr>)]\<rparr>\<close>
proof -
  have path: "devicePath ''proj1'' ''us-central1'' ''reg1'' ''dev1'' =
      ''projects/proj1/locations/us-central1/registries/reg1/devices/dev1''"
    by (simp add: devicePath_def)
  show ?thesis
    unfolding main_with_def Marshal_40 path using assms by (simp add: Let_def)
qed

theorem scenario_proj1_witness:
  \<open>main_with (FanConfig_value \<lparr>On = True, Speed = 40\<rparr>)
      ''proj1'' ''us-central1'' ''reg1'' ''dev1''
      \<lparr>NewService = Inr Service, Do = (\<lambda>path configRequest. None)\<rparr> =
    \<lparr>stdout = [],
     calls = [(''projects/proj1/locations/us-central1/registries/reg1/devices/dev1'',
               \<lparr>BinaryData = ''eyJvbiI6dHJ1ZSwic3BlZWQiOjQwfQ==''\<rparr>)]\<rparr>\<close>
proof -
  let ?api = "\<lparr>NewService = Inr Service, Do = (\<lambda>path configRequest. None)\<rparr>"
  have new: "NewService ?api = Inr Service"
    by simp
  have accepted:
    \<open>Do ?api ''projects/proj1/locations/us-central1/registries/reg1/devices/dev1''
        \<lparr>BinaryData = EncodeToString ''{"on":true,"speed":40}''\<rparr> = None\<close>
    by simp
  show ?thesis
    using scenario_proj1 [OF new accepted] unfolding EncodeToString_40 .
qed

section \<open>The round trip of the payload\<close>

subsection \<open>Base64\<close>

text \<open>The alphabet has 64 different characters, none of them the padding character.\<close>

lemma length_encodeStd: "length encodeStd = 64"
  by (simp add: encodeStd_def)

lemma distinct_encodeStd: "distinct encodeStd"
  by (simp add: encodeStd_def)

lemma pad_not_in_encodeStd: "CHR ''='' \<notin> set encodeStd"
  by (simp add: encodeStd_def)

lemma encodeStd_not_pad: "i < 64 \<Longrightarrow> encodeStd ! i \<noteq> CHR ''=''"
  by (metis nth_mem length_encodeStd pad_not_in_encodeStd)

lemma decodeMap_encodeStd: "i < 64 \<Longrightarrow> decodeMap (encodeStd ! i) = Some i"
  unfolding decodeMap_def
  using map_of_zip_nth [of encodeStd "[0..<64]" i]
  by (simp add: length_encodeStd distinct_encodeStd)

lemma mod_64_less: "(n::nat) mod 64 < 64"
  by simp

text \<open>The shifts by 12, 18 and 16 bits as repeated shifts by 6 and by 8.\<close>

lemma div_4096: "(v::nat) div 4096 = v div 64 div 64"
  using div_mult2_eq [of v 64 64] by simp

lemma div_262144: "(v::nat) div 262144 = v div 64 div 64 div 64"
  using div_mult2_eq [of v 4096 64] by (simp add: div_4096)

lemma div_65536: "(v::nat) div 65536 = v div 256 div 256"
  using div_mult2_eq [of v 256 256] by simp

text \<open>A 24-bit group is the sum of its four sextets, each at its place.\<close>

lemma sextets:
  fixes v :: nat
  assumes "v < 16777216"
  shows "(v div 262144 mod 64) * 262144 + (v div 4096 mod 64) * 4096 +
         (v div 64 mod 64) * 64 + v mod 64 = v"
proof -
  have units: "v = (v div 64) * 64 + v mod 64"
    by simp
  have second: "v div 64 = (v div 4096) * 64 + v div 64 mod 64"
    unfolding div_4096 by simp
  have third: "v div 4096 = (v div 262144) * 64 + v div 4096 mod 64"
    unfolding div_4096 div_262144 by simp
  have "v div 262144 < 64"
    using assms by simp
  then have top: "v div 262144 mod 64 = v div 262144"
    by simp
  show ?thesis
    unfolding top using units second third by linarith
qed

text \<open>The three bytes of a group, read back from it.\<close>

lemma group_bytes:
  fixes a b c :: nat
  assumes "a < 256" "b < 256" "c < 256"
  shows "(a * 65536 + b * 256 + c) div 65536 mod 256 = a"
    and "(a * 65536 + b * 256 + c) div 256 mod 256 = b"
    and "(a * 65536 + b * 256 + c) mod 256 = c"
proof -
  have upper: "(a * 65536 + b * 256 + c) div 256 = a * 256 + b"
    using assms by simp
  show "(a * 65536 + b * 256 + c) div 65536 mod 256 = a"
    unfolding div_65536 upper using assms by simp
  show "(a * 65536 + b * 256 + c) div 256 mod 256 = b"
    unfolding upper using assms by simp
  have lower: "a * 65536 + b * 256 + c = c + (a * 256 + b) * 256"
    by simp
  show "(a * 65536 + b * 256 + c) mod 256 = c"
    unfolding lower mod_mult_self1 using assms by simp
qed

lemma group_bound:
  fixes a b c :: nat
  assumes "a < 256" "b < 256" "c < 256"
  shows "a * 65536 + b * 256 + c < 16777216"
  using assms by linarith

text \<open>The low sextets of a group of one or two bytes are zero.\<close>

lemma one_byte_low: "(n * 65536) mod 64 = (0::nat)"
proof -
  have "n * 65536 = n * 1024 * 64"
    by simp
  then show ?thesis
    by (simp only: mod_mult_self2_is_0)
qed

lemma one_byte_div: "(n * 65536) div 64 = (n * 1024 :: nat)"
  by simp

lemma one_byte_mid: "(n * 65536) div 64 mod 64 = (0::nat)"
proof -
  have "n * 1024 = n * 16 * 64"
    by simp
  then show ?thesis
    unfolding one_byte_div by (simp only: mod_mult_self2_is_0)
qed

lemma two_bytes_low: "(n * 65536 + m * 256) mod 64 = (0::nat)"
proof -
  have "n * 65536 + m * 256 = (n * 1024 + m * 4) * 64"
    by simp
  then show ?thesis
    by (simp only: mod_mult_self2_is_0)
qed

text \<open>
  What the decoder reads from the characters that the encoder writes for one byte, for
  two bytes and for three.
\<close>

lemma one_byte_group:
  fixes a :: nat
  assumes "a < 256"
  defines "val \<equiv> a * 65536"
  defines "dec \<equiv> val div 262144 mod 64 * 262144 + val div 4096 mod 64 * 4096"
  shows "dec div 65536 mod 256 = a"
proof -
  have "val < 16777216"
    unfolding val_def using assms(1) by linarith
  from sextets [OF this] have "dec + val div 64 mod 64 * 64 + val mod 64 = val"
    unfolding dec_def .
  moreover have "val div 64 mod 64 = 0" "val mod 64 = 0"
    unfolding val_def by (rule one_byte_mid, rule one_byte_low)
  ultimately have "dec = a * 65536"
    unfolding val_def by simp
  then show ?thesis
    using assms(1) by simp
qed

lemma two_bytes_group:
  fixes a b :: nat
  assumes "a < 256" "b < 256"
  defines "val \<equiv> a * 65536 + b * 256"
  defines "dec \<equiv> val div 262144 mod 64 * 262144 + val div 4096 mod 64 * 4096 +
                  val div 64 mod 64 * 64"
  shows "dec div 65536 mod 256 = a" and "dec div 256 mod 256 = b"
proof -
  have "val < 16777216"
    unfolding val_def using assms(1,2) by linarith
  from sextets [OF this] have "dec + val mod 64 = val"
    unfolding dec_def .
  moreover have "val mod 64 = 0"
    unfolding val_def by (rule two_bytes_low)
  ultimately have dec: "dec = a * 65536 + b * 256 + 0"
    unfolding val_def by simp
  have zero: "(0::nat) < 256"
    by simp
  show "dec div 65536 mod 256 = a"
    unfolding dec by (rule group_bytes(1) [OF assms(1,2) zero])
  show "dec div 256 mod 256 = b"
    unfolding dec by (rule group_bytes(2) [OF assms(1,2) zero])
qed

lemma three_bytes_group:
  fixes a b c :: char
  defines "val \<equiv> of_char a * 65536 + of_char b * 256 + of_char c :: nat"
  shows "(val div 262144 mod 64) * 262144 + (val div 4096 mod 64) * 4096 +
         (val div 64 mod 64) * 64 + val mod 64 = val"
    and "char_of (val div 65536 mod 256) = a"
    and "char_of (val div 256 mod 256) = b"
    and "char_of (val mod 256) = c"
proof -
  have lt: "(of_char a :: nat) < 256" "(of_char b :: nat) < 256" "(of_char c :: nat) < 256"
    by simp_all
  show "(val div 262144 mod 64) * 262144 + (val div 4096 mod 64) * 4096 +
         (val div 64 mod 64) * 64 + val mod 64 = val"
    unfolding val_def by (rule sextets [OF group_bound [OF lt]])
  show "char_of (val div 65536 mod 256) = a"
    unfolding val_def group_bytes(1) [OF lt] by simp
  show "char_of (val div 256 mod 256) = b"
    unfolding val_def group_bytes(2) [OF lt] by simp
  show "char_of (val mod 256) = c"
    unfolding val_def group_bytes(3) [OF lt] by simp
qed

text \<open>The decoder on four characters of the alphabet, and on a padded last group.\<close>

lemma DecodeString_full:
  assumes "i0 < 64" "i1 < 64" "i2 < 64" "i3 < 64"
  shows "DecodeString (encodeStd ! i0 # encodeStd ! i1 # encodeStd ! i2 # encodeStd ! i3 # s) =
           (case DecodeString s of
              None \<Rightarrow> None
            | Some bytes \<Rightarrow>
                Some (char_of ((i0 * 262144 + i1 * 4096 + i2 * 64 + i3) div 65536 mod 256) #
                      char_of ((i0 * 262144 + i1 * 4096 + i2 * 64 + i3) div 256 mod 256) #
                      char_of ((i0 * 262144 + i1 * 4096 + i2 * 64 + i3) mod 256) # bytes))"
  using assms by (simp add: decodeMap_encodeStd encodeStd_not_pad Let_def split: option.split)

lemma DecodeString_pad1:
  assumes "i0 < 64" "i1 < 64" "i2 < 64"
  shows "DecodeString [encodeStd ! i0, encodeStd ! i1, encodeStd ! i2, CHR ''=''] =
           Some [char_of ((i0 * 262144 + i1 * 4096 + i2 * 64) div 65536 mod 256),
                 char_of ((i0 * 262144 + i1 * 4096 + i2 * 64) div 256 mod 256)]"
  using assms by (simp add: decodeMap_encodeStd encodeStd_not_pad Let_def)

lemma DecodeString_pad2:
  assumes "i0 < 64" "i1 < 64"
  shows "DecodeString [encodeStd ! i0, encodeStd ! i1, CHR ''='', CHR ''=''] =
           Some [char_of ((i0 * 262144 + i1 * 4096) div 65536 mod 256)]"
  using assms by (simp add: decodeMap_encodeStd Let_def)

text \<open>Decoding what \<^const>\<open>EncodeToString\<close> wrote gives the bytes back.\<close>

lemma DecodeString_EncodeToString: "DecodeString (EncodeToString src) = Some src"
proof (induction src rule: EncodeToString.induct)
  case 1
  show ?case by simp
next
  case (2 a)
  have lt: "(of_char a :: nat) < 256"
    by simp
  show ?case
    by (simp only: EncodeToString.simps Let_def DecodeString_pad2 [OF mod_64_less mod_64_less]
        one_byte_group [OF lt] char_of_char)
next
  case (3 a b)
  have lt: "(of_char a :: nat) < 256" "(of_char b :: nat) < 256"
    by simp_all
  show ?case
    by (simp only: EncodeToString.simps Let_def
        DecodeString_pad1 [OF mod_64_less mod_64_less mod_64_less]
        two_bytes_group [OF lt] char_of_char)
next
  case (4 a b c src)
  show ?case
    by (simp only: EncodeToString.simps Let_def append.simps
        DecodeString_full [OF mod_64_less mod_64_less mod_64_less mod_64_less]
        4 option.case three_bytes_group)
qed

subsection \<open>JSON\<close>

lemma CutPrefix_append: "CutPrefix p (p @ s) = Some s"
  by (induction p) auto

lemma ParseBool_append:
  "ParseBool ((if b then ''true'' else ''false'') @ s) = Some (b, s)"
  by (simp add: ParseBool_def)

lemma digit_cases:
  assumes "k < 10"
  obtains "k = 0" | "k = 1" | "k = 2" | "k = 3" | "k = 4" | "k = 5" | "k = 6" | "k = 7"
    | "k = 8" | "k = (9::nat)"
  using assms by atomize_elim arith

lemma is_digit_nth: "k < 10 \<Longrightarrow> is_digit (digits ! k)"
  by (erule digit_cases) (simp_all add: is_digit_def digits_def)

lemma digit_value_nth: "k < 10 \<Longrightarrow> digit_value (digits ! k) = k"
  by (erule digit_cases) (simp_all add: digit_value_def digits_def)

lemma FormatUint_digits: "list_all is_digit (FormatUint n)"
proof (induction n rule: FormatUint.induct)
  case (1 n)
  show ?case
  proof (cases "n < 10")
    case True
    then show ?thesis
      by (subst FormatUint.simps) (simp add: is_digit_nth)
  next
    case False
    with 1 show ?thesis
      by (subst FormatUint.simps) (simp add: is_digit_nth)
  qed
qed

lemma FormatUint_not_Nil: "FormatUint n \<noteq> []"
  by (subst FormatUint.simps) simp

lemma ParseUint_snoc: "ParseUint (ds @ [c]) = ParseUint ds * 10 + digit_value c"
  by (simp add: ParseUint_def)

lemma ParseUint_FormatUint: "ParseUint (FormatUint n) = n"
proof (induction n rule: FormatUint.induct)
  case (1 n)
  show ?case
  proof (cases "n < 10")
    case True
    then show ?thesis
      by (subst FormatUint.simps) (simp add: ParseUint_def digit_value_nth)
  next
    case False
    with 1 show ?thesis
      by (subst FormatUint.simps) (simp add: ParseUint_snoc digit_value_nth)
  qed
qed

lemma minus_not_digit: "\<not> is_digit CHR ''-''"
  by (simp add: is_digit_def digits_def)

lemma brace_not_digit: "\<not> is_digit CHR ''}''"
  by (simp add: is_digit_def digits_def)

lemma takeWhile_FormatUint:
  "\<not> is_digit c \<Longrightarrow> takeWhile is_digit (FormatUint n @ c # rest) = FormatUint n"
  using FormatUint_digits [of n] by (simp add: list_all_iff takeWhile_append2)

lemma dropWhile_FormatUint:
  "\<not> is_digit c \<Longrightarrow> dropWhile is_digit (FormatUint n @ c # rest) = c # rest"
  using FormatUint_digits [of n] by (simp add: list_all_iff dropWhile_append2)

lemma FormatUint_no_sign: "\<exists>d ds. FormatUint n = d # ds \<and> d \<noteq> CHR ''-''"
proof -
  obtain d ds where eq: "FormatUint n = d # ds"
    using FormatUint_not_Nil [of n] by (cases "FormatUint n") auto
  then have "is_digit d"
    using FormatUint_digits [of n] by simp
  then have "d \<noteq> CHR ''-''"
    using minus_not_digit by auto
  with eq show ?thesis by blast
qed

lemma ParseInt_FormatInt:
  assumes "\<not> is_digit c"
  shows "ParseInt (FormatInt i @ c # rest) = Some (i, c # rest)"
proof (cases "i < 0")
  case True
  then show ?thesis
    using assms
    by (simp add: ParseInt_def FormatInt_def takeWhile_FormatUint dropWhile_FormatUint
        FormatUint_not_Nil ParseUint_FormatUint)
next
  case False
  obtain d ds where eq: "FormatUint (nat i) = d # ds" and d: "d \<noteq> CHR ''-''"
    using FormatUint_no_sign by blast
  have neg: "(case FormatInt i @ c # rest of [] \<Rightarrow> False | x # t \<Rightarrow> x = CHR ''-'') = False"
    using False d by (simp add: FormatInt_def eq)
  have fmt: "FormatInt i = FormatUint (nat i)"
    using False by (simp add: FormatInt_def)
  show ?thesis
    unfolding ParseInt_def neg
    using False assms
    by (simp add: fmt takeWhile_FormatUint dropWhile_FormatUint
        FormatUint_not_Nil ParseUint_FormatUint)
qed

lemma Unmarshal_Marshal:
  \<open>Unmarshal_FanConfig (''{"on":'' @ (if On cfg then ''true'' else ''false'') @
          '',"speed":'' @ FormatInt (sint (Speed cfg)) @ ''}'') = Some cfg\<close>
proof -
  have lo: "- 9223372036854775808 \<le> sint (Speed cfg)"
    using sint_ge [of "Speed cfg"] by simp
  have hi: "sint (Speed cfg) \<le> 9223372036854775807"
    using sint_lt [of "Speed cfg"] by simp
  have int: \<open>ParseInt (FormatInt (sint (Speed cfg)) @ ''}'') = Some (sint (Speed cfg), ''}'')\<close>
    using ParseInt_FormatInt [OF brace_not_digit, of "sint (Speed cfg)" "[]"] .
  show ?thesis
    unfolding Unmarshal_FanConfig_def CutPrefix_append option.case ParseBool_append prod.case int
    using lo hi by simp
qed

subsection \<open>Encoding, then decoding\<close>

text \<open>
  C3. For every \<^verbatim>\<open>FanConfig\<close>, marshaling never fails, and decoding the transport
  encoding of the marshaled bytes (base64-decode, then deserialize the canonical JSON)
  gives back the configuration.
\<close>

theorem payload_roundtrip:
  "(case Marshal (FanConfig_value cfg) of
      Inl err \<Rightarrow> None
    | Inr bytes \<Rightarrow> decode_payload (EncodeToString bytes)) = Some cfg"
  by (simp only: Marshal_FanConfig sum.case decode_payload_def DecodeString_EncodeToString
      option.case Unmarshal_Marshal)

section \<open>A remote call that fails\<close>

text \<open>
  C4, as the specification has it, fails: when the registry answers every call with the
  transient error \<^verbatim>\<open>Unavailable\<close> (HTTP 503), \<^verbatim>\<open>main\<close> has issued one call when it returns,
  not the three of a retry policy with three attempts.
\<close>

theorem retry_counterexample:
  "length (calls (main \<lparr>NewService = Inr Service,
      Do = (\<lambda>path configRequest. Some (Err ''googleapi: Error 503: The service is currently unavailable., backendError''))\<rparr>)) = 1
   \<and> length (calls (main \<lparr>NewService = Inr Service,
      Do = (\<lambda>path configRequest. Some (Err ''googleapi: Error 503: The service is currently unavailable., backendError''))\<rparr>)) \<noteq> 3"
  by (simp add: main_def main_with_def Marshal_40 Let_def)

text \<open>
  C4, amended. When the remote call fails, with \<^verbatim>\<open>Unavailable\<close> or any other error, both
  programs have issued that one call and no other: there is no retry, no backoff and no
  number of attempts to configure. They print the text of the error and return; the
  handler also answers 500 with a fixed body.
\<close>

theorem remote_error_no_retry:
  assumes "NewService api = Inr service"
    and "Marshal sunnyConfigData = Inr bytes"
    and "Do api (devicePath projectID location registryID deviceID)
            \<lparr>BinaryData = EncodeToString bytes\<rparr> = Some err"
  shows "main_with sunnyConfigData projectID location registryID deviceID api =
           \<lparr>stdout = Error err @ ''\<newline>'',
            calls = [(devicePath projectID location registryID deviceID,
                      \<lparr>BinaryData = EncodeToString bytes\<rparr>)]\<rparr>
       \<and> UpdateWeather_with sunnyConfigData projectID location registryID deviceID api r =
           \<lparr>stdout = Error err @ ''\<newline>'',
            calls = [(devicePath projectID location registryID deviceID,
                      \<lparr>BinaryData = EncodeToString bytes\<rparr>)],
            response = [WriteHeader 500, Write ''500 - Something bad happened!'']\<rparr>"
  using assms
  by (simp add: main_with_def UpdateWeather_with_def Let_def StatusInternalServerError_def)

theorem remote_error_no_retry_witness:
  \<open>main \<lparr>NewService = Inr Service,
          Do = (\<lambda>path configRequest. Some (Err ''googleapi: Error 503: The service is currently unavailable., backendError''))\<rparr> =
     \<lparr>stdout = ''googleapi: Error 503: The service is currently unavailable., backendError\<newline>'',
      calls = [(''projects/YOUR-GCP-PROJECT-ID/locations/REGISTRY-LOCATION/registries/REGISTRY-ID/devices/DEVICE-ID'',
                \<lparr>BinaryData = ''eyJvbiI6dHJ1ZSwic3BlZWQiOjQwfQ==''\<rparr>)]\<rparr>
   \<and> UpdateWeather_with (FanConfig_value \<lparr>On = True, Speed = 40\<rparr>)
        ''YOUR-GCP-PROJECT-ID'' ''REGISTRY-LOCATION'' ''REGISTRY-ID'' ''DEVICE-ID''
        \<lparr>NewService = Inr Service,
          Do = (\<lambda>path configRequest. Some (Err ''googleapi: Error 503: The service is currently unavailable., backendError''))\<rparr>
        \<lparr>Method = ''POST'', URL = ''/UpdateWeather'', Body = []\<rparr> =
     \<lparr>stdout = ''googleapi: Error 503: The service is currently unavailable., backendError\<newline>'',
      calls = [(''projects/YOUR-GCP-PROJECT-ID/locations/REGISTRY-LOCATION/registries/REGISTRY-ID/devices/DEVICE-ID'',
                \<lparr>BinaryData = ''eyJvbiI6dHJ1ZSwic3BlZWQiOjQwfQ==''\<rparr>)],
      response = [WriteHeader 500, Write ''500 - Something bad happened!'']\<rparr>\<close>
proof -
  let ?e = "Err ''googleapi: Error 503: The service is currently unavailable., backendError''"
  let ?api = "\<lparr>NewService = Inr Service, Do = (\<lambda>path configRequest. Some ?e)\<rparr>"
  have new: "NewService ?api = Inr Service"
    by simp
  have unavailable:
    \<open>Do ?api (devicePath ''YOUR-GCP-PROJECT-ID'' ''REGISTRY-LOCATION'' ''REGISTRY-ID'' ''DEVICE-ID'')
        \<lparr>BinaryData = EncodeToString ''{"on":true,"speed":40}''\<rparr> = Some ?e\<close>
    by simp
  have path: "devicePath ''YOUR-GCP-PROJECT-ID'' ''REGISTRY-LOCATION'' ''REGISTRY-ID'' ''DEVICE-ID'' =
      ''projects/YOUR-GCP-PROJECT-ID/locations/REGISTRY-LOCATION/registries/REGISTRY-ID/devices/DEVICE-ID''"
    by (simp add: devicePath_def)
  show ?thesis
    using remote_error_no_retry [OF new Marshal_40 unavailable]
    unfolding main_def EncodeToString_40 path Error.simps by simp
qed

section \<open>Addresses that are not valid\<close>

lemma segments_not_Nil: "segments s \<noteq> []"
  by (induction s) (auto split: list.splits)

lemma segments_no_slash: "CHR ''/'' \<notin> set a \<Longrightarrow> segments a = [a]"
  by (induction a) auto

lemma segments_append_slash:
  "CHR ''/'' \<notin> set a \<Longrightarrow> segments (a @ CHR ''/'' # rest) = a # segments rest"
  by (induction a) auto

lemma length_segments: "length (segments s) = Suc (length (filter (\<lambda>c. c = CHR ''/'') s))"
  by (induction s) (auto split: list.splits simp: segments_not_Nil)

lemma devicePath_parts:
  "devicePath p l r d =
     ''projects'' @ CHR ''/'' # p @ CHR ''/'' # ''locations'' @ CHR ''/'' # l @ CHR ''/'' #
     ''registries'' @ CHR ''/'' # r @ CHR ''/'' # ''devices'' @ CHR ''/'' # d"
  by (simp add: devicePath_def)

lemma segments_devicePath:
  assumes "CHR ''/'' \<notin> set (p @ l @ r @ d)"
  shows "segments (devicePath p l r d) =
           [''projects'', p, ''locations'', l, ''registries'', r, ''devices'', d]"
proof -
  have k: "CHR ''/'' \<notin> set ''projects''" "CHR ''/'' \<notin> set ''locations''"
    "CHR ''/'' \<notin> set ''registries''" "CHR ''/'' \<notin> set ''devices''"
    by simp_all
  have f: "CHR ''/'' \<notin> set p" "CHR ''/'' \<notin> set l" "CHR ''/'' \<notin> set r" "CHR ''/'' \<notin> set d"
    using assms by simp_all
  show ?thesis
    unfolding devicePath_parts
    by (simp only: segments_append_slash [OF k(1)] segments_append_slash [OF k(2)]
        segments_append_slash [OF k(3)] segments_append_slash [OF k(4)]
        segments_append_slash [OF f(1)] segments_append_slash [OF f(2)]
        segments_append_slash [OF f(3)] segments_no_slash [OF f(4)])
qed

lemma count_slash_devicePath:
  "length (filter (\<lambda>c. c = CHR ''/'') (devicePath p l r d)) =
     7 + length (filter (\<lambda>c. c = CHR ''/'') (p @ l @ r @ d))"
  by (simp add: devicePath_def)

lemma device_path_ok_devicePath:
  "device_path_ok (devicePath p l r d) \<longleftrightarrow>
     p \<noteq> [] \<and> l \<noteq> [] \<and> r \<noteq> [] \<and> d \<noteq> [] \<and> CHR ''/'' \<notin> set (p @ l @ r @ d)"
proof (cases "CHR ''/'' \<in> set (p @ l @ r @ d)")
  case True
  then have "filter (\<lambda>c. c = CHR ''/'') (p @ l @ r @ d) \<noteq> []"
    by (simp only: filter_empty_conv) blast
  then have "length (filter (\<lambda>c. c = CHR ''/'') (p @ l @ r @ d)) > 0"
    by simp
  then have "length (segments (devicePath p l r d)) \<noteq> 8"
    unfolding length_segments count_slash_devicePath by simp
  then show ?thesis
    using True by (simp add: device_path_ok_def Let_def)
next
  case False
  then show ?thesis
    by (simp add: device_path_ok_def segments_devicePath)
qed

text \<open>
  C5, as the specification has it, fails: with an empty project the result is not an
  error but the path \<^verbatim>\<open>projects//locations/loc/registries/reg/devices/dev\<close>.
\<close>

theorem empty_field_counterexample:
  "devicePath [] ''loc'' ''reg'' ''dev'' = ''projects//locations/loc/registries/reg/devices/dev''
   \<and> \<not> device_path_ok (devicePath [] ''loc'' ''reg'' ''dev'')"
  by (simp add: device_path_ok_devicePath) (simp add: devicePath_def)

text \<open>
  C5, amended. Path resolution has no failure: its result is a string, there is no
  \<^verbatim>\<open>InvalidAddressError\<close> and nothing is checked. When a field is empty or contains a
  slash, the result is still the format with the fields put in as they are, and that
  string is a malformed path.
\<close>

theorem devicePath_unvalidated:
  assumes "projectID = [] \<or> location = [] \<or> registryID = [] \<or> deviceID = [] \<or>
           CHR ''/'' \<in> set (projectID @ location @ registryID @ deviceID)"
  shows "devicePath projectID location registryID deviceID =
           ''projects/'' @ projectID @ ''/locations/'' @ location @
           ''/registries/'' @ registryID @ ''/devices/'' @ deviceID
       \<and> \<not> device_path_ok (devicePath projectID location registryID deviceID)"
proof
  show "devicePath projectID location registryID deviceID =
           ''projects/'' @ projectID @ ''/locations/'' @ location @
           ''/registries/'' @ registryID @ ''/devices/'' @ deviceID"
    unfolding devicePath_def by (rule Sprintf_path)
  show "\<not> device_path_ok (devicePath projectID location registryID deviceID)"
    unfolding device_path_ok_devicePath using assms by blast
qed

theorem devicePath_unvalidated_witness:
  "devicePath [] ''loc'' ''reg/x'' ''dev'' =
     ''projects//locations/loc/registries/reg/x/devices/dev''
   \<and> \<not> device_path_ok (devicePath [] ''loc'' ''reg/x'' ''dev'')"
proof -
  have invalid: "[] = [] \<or> ''loc'' = [] \<or> ''reg/x'' = [] \<or> ''dev'' = [] \<or>
      CHR ''/'' \<in> set ([] @ ''loc'' @ ''reg/x'' @ ''dev'')"
    by simp
  from devicePath_unvalidated [OF invalid]
  have path: "devicePath [] ''loc'' ''reg/x'' ''dev'' =
      ''projects/'' @ [] @ ''/locations/'' @ ''loc'' @ ''/registries/'' @ ''reg/x'' @
      ''/devices/'' @ ''dev''"
    and malformed: "\<not> device_path_ok (devicePath [] ''loc'' ''reg/x'' ''dev'')"
    by blast+
  from path have "devicePath [] ''loc'' ''reg/x'' ''dev'' =
      ''projects//locations/loc/registries/reg/x/devices/dev''"
    by simp
  with malformed show ?thesis
    by blast
qed

section \<open>The path depends on the four fields only\<close>

text \<open>
  C7. The path that reaches the registry is a function of the four fields and of nothing
  else: two runs with the same four fields, whatever their payloads, their clients, the
  answers of the registry, and whichever of the two programs runs, pass the same path,
  the one that \<^const>\<open>devicePath\<close> gives for the fields.
\<close>

theorem devicePath_only_fields:
  assumes "NewService api = Inr service" and "Marshal payload = Inr bytes"
    and "NewService api' = Inr service'" and "Marshal payload' = Inr bytes'"
  shows "map fst (calls (main_with payload projectID location registryID deviceID api)) =
           [devicePath projectID location registryID deviceID]
       \<and> map fst (calls (main_with payload' projectID location registryID deviceID api')) =
           [devicePath projectID location registryID deviceID]
       \<and> map fst (calls (UpdateWeather_with payload' projectID location registryID deviceID api' r)) =
           [devicePath projectID location registryID deviceID]"
  using assms
  by (simp add: main_with_def UpdateWeather_with_def Let_def split: option.split)

theorem devicePath_only_fields_witness:
  "map fst (calls (main_with (FanConfig_value \<lparr>On = True, Speed = 40\<rparr>) ''p'' ''l'' ''r'' ''d''
       \<lparr>NewService = Inr Service, Do = (\<lambda>path configRequest. None)\<rparr>)) =
     [devicePath ''p'' ''l'' ''r'' ''d'']
   \<and> map fst (calls (main_with (FanConfig_value \<lparr>On = True, Speed = 20\<rparr>) ''p'' ''l'' ''r'' ''d''
       \<lparr>NewService = Inr Service, Do = (\<lambda>path configRequest. Some (Err ''googleapi: Error 404''))\<rparr>)) =
     [devicePath ''p'' ''l'' ''r'' ''d'']
   \<and> map fst (calls (UpdateWeather_with (FanConfig_value \<lparr>On = True, Speed = 20\<rparr>) ''p'' ''l'' ''r'' ''d''
       \<lparr>NewService = Inr Service, Do = (\<lambda>path configRequest. Some (Err ''googleapi: Error 404''))\<rparr>
       \<lparr>Method = ''GET'', URL = ''/'', Body = []\<rparr>)) =
     [devicePath ''p'' ''l'' ''r'' ''d'']"
proof -
  let ?api = "\<lparr>NewService = Inr Service, Do = (\<lambda>path configRequest. None)\<rparr>"
  let ?api' = "\<lparr>NewService = Inr Service,
                 Do = (\<lambda>path configRequest. Some (Err ''googleapi: Error 404''))\<rparr>"
  have new: "NewService ?api = Inr Service" and new': "NewService ?api' = Inr Service"
    by simp_all
  show ?thesis
    by (rule devicePath_only_fields [OF new Marshal_40 new' Marshal_20])
qed

section \<open>Marshaling a \<^verbatim>\<open>FanConfig\<close> cannot fail\<close>

text \<open>
  C8. For every \<^verbatim>\<open>FanConfig\<close>, \<^verbatim>\<open>json.Marshal\<close> gives bytes and no error, so neither
  program leaves through the branch after it: once the client is built, the remote call
  is issued.
\<close>

theorem Marshal_FanConfig_succeeds:
  "(\<exists>bytes. Marshal (FanConfig_value cfg) = Inr bytes)
   \<and> (\<forall>service. NewService api = Inr service \<longrightarrow>
        length (calls (main_with (FanConfig_value cfg) projectID location registryID deviceID api)) = 1
      \<and> length (calls (UpdateWeather_with (FanConfig_value cfg) projectID location registryID
                         deviceID api r)) = 1)"
  by (simp add: main_with_def UpdateWeather_with_def Marshal_FanConfig Let_def
      split: option.split)

theorem Marshal_FanConfig_succeeds_witness:
  \<open>Marshal (FanConfig_value \<lparr>On = False, Speed = - 1\<rparr>) = Inr ''{"on":false,"speed":-1}''
   \<and> length (calls (main_with (FanConfig_value \<lparr>On = False, Speed = - 1\<rparr>) ''p'' ''l'' ''r'' ''d''
         \<lparr>NewService = Inr Service, Do = (\<lambda>path configRequest. None)\<rparr>)) = 1
   \<and> length (calls (UpdateWeather_with (FanConfig_value \<lparr>On = False, Speed = - 1\<rparr>)
         ''p'' ''l'' ''r'' ''d''
         \<lparr>NewService = Inr Service, Do = (\<lambda>path configRequest. None)\<rparr>
         \<lparr>Method = ''GET'', URL = ''/'', Body = []\<rparr>)) = 1\<close>
proof -
  let ?api = "\<lparr>NewService = Inr Service, Do = (\<lambda>path configRequest. None)\<rparr>"
  let ?cfg = "\<lparr>On = False, Speed = - 1\<rparr>"
  have new: "NewService ?api = Inr Service"
    by simp
  have json: \<open>Marshal (FanConfig_value ?cfg) = Inr ''{"on":false,"speed":-1}''\<close>
    by (simp add: Marshal_FanConfig FormatInt_def FormatUint.simps digits_def)
  from Marshal_FanConfig_succeeds [of ?cfg ?api "''p''" "''l''" "''r''" "''d''"
      "\<lparr>Method = ''GET'', URL = ''/'', Body = []\<rparr>"] new
  have "length (calls (main_with (FanConfig_value ?cfg) ''p'' ''l'' ''r'' ''d'' ?api)) = 1
      \<and> length (calls (UpdateWeather_with (FanConfig_value ?cfg) ''p'' ''l'' ''r'' ''d'' ?api
                         \<lparr>Method = ''GET'', URL = ''/'', Body = []\<rparr>)) = 1"
    by blast
  with json show ?thesis
    by blast
qed

section \<open>The responses of \<^verbatim>\<open>UpdateWeather\<close>\<close>

text \<open>
  C6 at the input where it fails: when \<^verbatim>\<open>cloudiot.NewService\<close> gives an error (no
  credentials), the handler prints the error and returns. It has called neither
  \<^verbatim>\<open>WriteHeader\<close> nor \<^verbatim>\<open>Write\<close>: the failed dispatch gets no error status and no body.
\<close>

theorem UpdateWeather_without_client:
  "UpdateWeather
     \<lparr>NewService = Inl (Err ''google: could not find default credentials''),
      Do = (\<lambda>path configRequest. None)\<rparr>
     \<lparr>Method = ''POST'', URL = ''/UpdateWeather'', Body = []\<rparr> =
   \<lparr>stdout = ''google: could not find default credentials\<newline>'',
    calls = [],
    response = []\<rparr>"
  by (simp add: UpdateWeather_def UpdateWeather_with_def)

text \<open>
  C9. When the client cannot be built or marshaling fails, the handler returns without a
  call of \<^verbatim>\<open>WriteHeader\<close> or \<^verbatim>\<open>Write\<close>, so the two failures leave the same (empty)
  response. The status 500 is written exactly when the client was built, the payload
  was marshaled and the remote call failed. For \<^verbatim>\<open>UpdateWeather\<close> itself, whose payload
  always marshals, the response is empty exactly when the client cannot be built.
\<close>

theorem UpdateWeather_early_exit_silent:
  "((\<exists>err. NewService api = Inl err) \<or> (\<exists>err. Marshal payload = Inl err) \<longrightarrow>
      response (UpdateWeather_with payload projectID location registryID deviceID api r) = [])
   \<and> (WriteHeader StatusInternalServerError \<in>
        set (response (UpdateWeather_with payload projectID location registryID deviceID api r))
      \<longleftrightarrow> (\<exists>service bytes err. NewService api = Inr service \<and> Marshal payload = Inr bytes \<and>
             Do api (devicePath projectID location registryID deviceID)
               \<lparr>BinaryData = EncodeToString bytes\<rparr> = Some err))
   \<and> (response (UpdateWeather api r) = [] \<longleftrightarrow> (\<exists>err. NewService api = Inl err))"
proof (intro conjI impI)
  assume "(\<exists>err. NewService api = Inl err) \<or> (\<exists>err. Marshal payload = Inl err)"
  then show "response (UpdateWeather_with payload projectID location registryID deviceID api r) = []"
    by (auto simp: UpdateWeather_with_def split: sum.split)
next
  show "WriteHeader StatusInternalServerError \<in>
        set (response (UpdateWeather_with payload projectID location registryID deviceID api r))
      \<longleftrightarrow> (\<exists>service bytes err. NewService api = Inr service \<and> Marshal payload = Inr bytes \<and>
             Do api (devicePath projectID location registryID deviceID)
               \<lparr>BinaryData = EncodeToString bytes\<rparr> = Some err)"
    by (cases "NewService api"; cases "Marshal payload";
        cases "Do api (devicePath projectID location registryID deviceID)
                 \<lparr>BinaryData = EncodeToString (projr (Marshal payload))\<rparr>")
       (simp_all add: UpdateWeather_with_def Let_def StatusOK_def
          StatusInternalServerError_def)
next
  show "response (UpdateWeather api r) = [] \<longleftrightarrow> (\<exists>err. NewService api = Inl err)"
    by (cases "NewService api")
       (simp_all add: UpdateWeather_def UpdateWeather_with_def Marshal_20 Let_def
          split: option.split)
qed

theorem UpdateWeather_early_exit_silent_witness:
  "response (UpdateWeather_with (FanConfig_value \<lparr>On = True, Speed = 20\<rparr>) ''p'' ''l'' ''r'' ''d''
      \<lparr>NewService = Inl (Err ''google: could not find default credentials''),
       Do = (\<lambda>path configRequest. None)\<rparr>
      \<lparr>Method = ''GET'', URL = ''/'', Body = []\<rparr>) = []
   \<and> response (UpdateWeather_with (VUnsupported ''chan int'') ''p'' ''l'' ''r'' ''d''
      \<lparr>NewService = Inr Service, Do = (\<lambda>path configRequest. None)\<rparr>
      \<lparr>Method = ''GET'', URL = ''/'', Body = []\<rparr>) = []
   \<and> WriteHeader StatusInternalServerError \<in>
      set (response (UpdateWeather_with (FanConfig_value \<lparr>On = True, Speed = 20\<rparr>)
        ''p'' ''l'' ''r'' ''d''
        \<lparr>NewService = Inr Service,
         Do = (\<lambda>path configRequest. Some (Err ''googleapi: Error 404: Device not found''))\<rparr>
        \<lparr>Method = ''GET'', URL = ''/'', Body = []\<rparr>))"
proof -
  let ?r = "\<lparr>Method = ''GET'', URL = ''/'', Body = []\<rparr>"
  let ?cfg = "FanConfig_value \<lparr>On = True, Speed = 20\<rparr>"
  let ?no_client = "\<lparr>NewService = Inl (Err ''google: could not find default credentials''),
                      Do = (\<lambda>path configRequest. None)\<rparr>"
  let ?api = "\<lparr>NewService = Inr Service, Do = (\<lambda>path configRequest. None)\<rparr>"
  let ?not_found = "\<lparr>NewService = Inr Service,
      Do = (\<lambda>path configRequest. Some (Err ''googleapi: Error 404: Device not found''))\<rparr>"
  have client: "(\<exists>err. NewService ?no_client = Inl err) \<or> (\<exists>err. Marshal ?cfg = Inl err)"
    by simp
  have marshal: "(\<exists>err. NewService ?api = Inl err) \<or>
      (\<exists>err. Marshal (VUnsupported ''chan int'') = Inl err)"
    by simp
  have remote: "\<exists>service bytes err. NewService ?not_found = Inr service \<and>
      Marshal ?cfg = Inr bytes \<and>
      Do ?not_found (devicePath ''p'' ''l'' ''r'' ''d'') \<lparr>BinaryData = EncodeToString bytes\<rparr> =
        Some err"
    by (simp add: Marshal_20)
  from UpdateWeather_early_exit_silent [of ?no_client ?cfg "''p''" "''l''" "''r''" "''d''" ?r]
    client
  have 1: "response (UpdateWeather_with ?cfg ''p'' ''l'' ''r'' ''d'' ?no_client ?r) = []"
    by blast
  from UpdateWeather_early_exit_silent
    [of ?api "VUnsupported ''chan int''" "''p''" "''l''" "''r''" "''d''" ?r]
    marshal
  have 2: "response (UpdateWeather_with (VUnsupported ''chan int'')
      ''p'' ''l'' ''r'' ''d'' ?api ?r) = []"
    by blast
  from UpdateWeather_early_exit_silent [of ?not_found ?cfg "''p''" "''l''" "''r''" "''d''" ?r]
    remote
  have 3: "WriteHeader StatusInternalServerError \<in>
      set (response (UpdateWeather_with ?cfg ''p'' ''l'' ''r'' ''d'' ?not_found ?r))"
    by blast
  from 1 2 3 show ?thesis
    by blast
qed

text \<open>
  C10. The handler does not look at the request: two requests give the same run, and the
  arguments of the remote call, when it is issued, are the path of the hard-coded
  identifiers and the encoding of \<^verbatim>\<open>{"on":true,"speed":20}\<close>, whatever the request and
  whatever the client.
\<close>

theorem UpdateWeather_ignores_request:
  \<open>UpdateWeather api r = UpdateWeather api r'
   \<and> calls (UpdateWeather api r) =
       (case NewService api of
          Inl err \<Rightarrow> []
        | Inr service \<Rightarrow>
            [(''projects/YOUR-GCP-PROJECT-ID/locations/REGISTRY-LOCATION/registries/REGISTRY-ID/devices/DEVICE-ID'',
              \<lparr>BinaryData = EncodeToString ''{"on":true,"speed":20}''\<rparr>)])\<close>
  by (simp add: UpdateWeather_def UpdateWeather_with_def Marshal_20 Let_def devicePath_def
      split: sum.split option.split)

end
